theory Spec2Isabelle
  imports Complex_Main "HOL-Library.Sublist"
begin

section \<open>Python strings and list primitives\<close>

text \<open>
  A Python \<^verbatim>\<open>str\<close> is a sequence of Unicode code points and \<^verbatim>\<open>len\<close> counts code
  points, so a string is a list of code points here. The tables of the program contain
  accented letters and an em dash, which are written by their code point.
\<close>

type_synonym pystr = "nat list"

definition str :: "string \<Rightarrow> pystr" where
  "str cs = map of_char cs"

abbreviation a_acute :: pystr where "a_acute \<equiv> [225]"
abbreviation e_acute :: pystr where "e_acute \<equiv> [233]"
abbreviation i_acute :: pystr where "i_acute \<equiv> [237]"
abbreviation o_acute :: pystr where "o_acute \<equiv> [243]"
abbreviation u_acute :: pystr where "u_acute \<equiv> [250]"
abbreviation n_tilde :: pystr where "n_tilde \<equiv> [241]"
abbreviation em_dash :: pystr where "em_dash \<equiv> [8212]"

text \<open>
  \<^verbatim>\<open>str.lower\<close> is a builtin of the language, not code of the program: every function
  that calls it takes it as the parameter \<open>lower\<close>, and the theorems hold for whatever
  function stands there. \<open>latin1_lower\<close> is the builtin on code points below 256 (the
  letters A-Z and the accented capitals 192-222 except the multiplication sign 215 move up
  by 32); it instantiates the parameter where a concrete catalog is evaluated.
\<close>

definition lower_cp :: "nat \<Rightarrow> nat" where
  "lower_cp c = (if (65 \<le> c \<and> c \<le> 90) \<or> (192 \<le> c \<and> c \<le> 222 \<and> c \<noteq> 215) then c + 32 else c)"

definition latin1_lower :: "pystr \<Rightarrow> pystr" where
  "latin1_lower s = map lower_cp s"

text \<open>\<^verbatim>\<open>a in b\<close> on strings: \<open>a\<close> occurs in \<open>b\<close> as a contiguous substring.\<close>

fun str_in :: "pystr \<Rightarrow> pystr \<Rightarrow> bool" where
  "str_in a [] = (a = [])"
| "str_in a (c # cs) = (prefix a (c # cs) \<or> str_in a cs)"

text \<open>\<^verbatim>\<open>s.rfind(c)\<close> for a single character: the highest index of \<open>c\<close>, or -1.\<close>

fun rfind :: "pystr \<Rightarrow> nat \<Rightarrow> int" where
  "rfind [] c = -1"
| "rfind (x # xs) c =
     (let r = rfind xs c in if 0 \<le> r then r + 1 else if x = c then 0 else -1)"

text \<open>
  \<^verbatim>\<open>xs[:n]\<close> for any integer \<open>n\<close>: a negative bound counts from the end, so
  \<^verbatim>\<open>xs[:-1]\<close> drops the last element.
\<close>

definition slice_to :: "'a list \<Rightarrow> int \<Rightarrow> 'a list" where
  "slice_to xs n = (if 0 \<le> n then take (nat n) xs else take (nat (int (length xs) + n)) xs)"

text \<open>\<^verbatim>\<open>sep.join(xs)\<close>.\<close>

fun join :: "pystr \<Rightarrow> pystr list \<Rightarrow> pystr" where
  "join sep [] = []"
| "join sep [x] = x"
| "join sep (x # y # ys) = x @ sep @ join sep (y # ys)"

text \<open>
  \<^verbatim>\<open>random.choice(xs)\<close> returns \<^verbatim>\<open>xs[i]\<close> for a drawn index \<open>i\<close> below the length; the
  draw is the parameter \<open>rnd\<close>. On an empty list the builtin raises, which no call of the
  program can reach: every pool it is given is non-empty (\<open>calm_options_nonempty\<close>).
\<close>

definition random_choice :: "nat \<Rightarrow> 'a list \<Rightarrow> 'a" where
  "random_choice rnd xs = xs ! (rnd mod length xs)"

section \<open>Data model\<close>

record UserProfile =
  user_id :: pystr
  name :: pystr
  age :: int
  gender :: pystr
  hobbies :: "pystr list"
  goals :: "pystr list"

record Situation =
  sit_type :: pystr
  subtype :: pystr
  sit_context :: pystr

record Product =
  prod_id :: pystr
  nombre :: pystr
  categoria_principal :: pystr
  subcategoria :: pystr
  precio_desde :: real
  url :: pystr
  imagen_url :: pystr
  promocion :: bool
  descripcion :: "pystr option"
  activity_types :: "pystr list"
  situation_tags :: "pystr list"

text \<open>
  The score is a Python float that only ever receives sums of the integers 30, 15, 10, 5
  and -50, which are exact in a float; it is an integer here.
\<close>

record Recommendation =
  product :: Product
  score :: int
  reasons :: "pystr list"

section \<open>SituationKnowledgeBase\<close>

record SituationConfig =
  beneficial :: "pystr list"
  avoid :: "pystr list"
  sit_keywords :: "pystr list"
  description :: pystr

text \<open>The dictionary in its insertion order, which is the order Python iterates it in.\<close>

definition SITUATION_CONFIG :: "(pystr \<times> SituationConfig) list" where
  "SITUATION_CONFIG = [
    (str ''perdida_familiar'', \<lparr>
      beneficial = [str ''baja_estimulacion'', str ''naturaleza'', str ''social_suave'',
                    str ''mindfulness'', str ''agua''],
      avoid = [str ''alta_estimulacion'', str ''competitivo'', str ''fiesta''],
      sit_keywords = [str ''descanso'', str ''tranquilo'', str ''paz'', str ''naturaleza'',
                  str ''spa'', str ''estad'' @ i_acute @ str ''a'', str ''caminata''],
      description = str ''La p'' @ e_acute @ str ''rdida requiere espacios de calma para procesar el duelo'' \<rparr>),
    (str ''ruptura_amorosa'', \<lparr>
      beneficial = [str ''ejercicio'', str ''social'', str ''expresion_artistica'',
                    str ''naturaleza'', str ''agua''],
      avoid = [str ''romantico'', str ''parejas''],
      sit_keywords = [str ''deporte'', str ''grupo'', str ''social'', str ''arte'',
                  str ''nataci'' @ o_acute @ str ''n'', str ''gimnasio'', str ''taller''],
      description = str ''El movimiento f'' @ i_acute @ str ''sico y las conexiones sociales ayudan a procesar'' \<rparr>),
    (str ''ansiedad'', \<lparr>
      beneficial = [str ''mindfulness'', str ''ejercicio_suave'', str ''naturaleza'',
                    str ''agua'', str ''baja_estimulacion''],
      avoid = [str ''alta_estimulacion'', str ''multitudes'', str ''competitivo''],
      sit_keywords = [str ''yoga'', str ''meditaci'' @ o_acute @ str ''n'',
                  str ''nataci'' @ o_acute @ str ''n'', str ''spa'',
                  str ''relajaci'' @ o_acute @ str ''n'', str ''tranquilo''],
      description = str ''Actividades que calman el sistema nervioso son clave'' \<rparr>),
    (str ''soledad'', \<lparr>
      beneficial = [str ''social'', str ''grupal'', str ''club'', str ''voluntariado''],
      avoid = [str ''individual'', str ''solitario''],
      sit_keywords = [str ''grupo'', str ''club'', str ''taller'', str ''clase'', str ''social'',
                  str ''comunidad''],
      description = str ''Construir conexiones a trav'' @ e_acute @ str ''s de intereses compartidos'' \<rparr>),
    (str ''estres_laboral'', \<lparr>
      beneficial = [str ''desconexion'', str ''naturaleza'', str ''ejercicio'', str ''spa'',
                    str ''agua''],
      avoid = [str ''alta_concentracion'', str ''competitivo''],
      sit_keywords = [str ''escapada'', str ''descanso'', str ''spa'', str ''naturaleza'',
                  str ''deporte'', str ''vacaciones'', str ''parque''],
      description = str ''Desconexi'' @ o_acute @ str ''n activa del entorno laboral'' \<rparr>),
    (str ''duelo'', \<lparr>
      beneficial = [str ''baja_estimulacion'', str ''naturaleza'', str ''expresion_artistica'',
                    str ''social_suave''],
      avoid = [str ''alta_estimulacion'', str ''fiestas''],
      sit_keywords = [str ''tranquilo'', str ''naturaleza'', str ''arte'', str ''caminata'',
                  str ''grupo de apoyo''],
      description = str ''Espacio para procesar y honrar la p'' @ e_acute @ str ''rdida'' \<rparr>)
  ]"

definition get_config :: "pystr \<Rightarrow> SituationConfig" where
  "get_config situation_type =
     (case map_of SITUATION_CONFIG situation_type of
        Some config \<Rightarrow> config
      | None \<Rightarrow> \<lparr> beneficial = [], avoid = [], sit_keywords = [], description = [] \<rparr>)"

section \<open>RecommendationEngine.recommend\<close>

text \<open>
  The loop over the profile's hobbies at the end of the scoring of one product: the
  running score and reasons are the state.
\<close>

fun hobby_loop ::
  "(pystr \<Rightarrow> pystr) \<Rightarrow> pystr \<Rightarrow> Product \<Rightarrow> pystr list \<Rightarrow> int \<times> pystr list \<Rightarrow> int \<times> pystr list"
where
  "hobby_loop lower nombre_lower p [] (sc, rs) = (sc, rs)"
| "hobby_loop lower nombre_lower p (hobby # rest) (sc, rs) =
     (let hobby_lower = lower hobby in
      if str_in hobby_lower nombre_lower \<or> str_in hobby_lower (lower (subcategoria p))
      then hobby_loop lower nombre_lower p rest
             (sc + 10, rs @ [str ''Conecta con tu inter'' @ e_acute @ str ''s en '' @ hobby])
      else hobby_loop lower nombre_lower p rest (sc, rs))"

text \<open>The body of the loop over the products: the score and the reasons of one product.\<close>

definition score_product ::
  "(pystr \<Rightarrow> pystr) \<Rightarrow> pystr list \<Rightarrow> pystr list \<Rightarrow> pystr list \<Rightarrow> UserProfile \<Rightarrow> Product
     \<Rightarrow> int \<times> pystr list"
where
  "score_product lower benef avd kws profile p =
     (let sc0 = 0; rs0 = [];
          matching_types = filter (\<lambda>atype. atype \<in> set benef) (activity_types p);
          (sc1, rs1) =
            (case matching_types of
               [] \<Rightarrow> (sc0, rs0)
             | first # _ \<Rightarrow>
                 (sc0 + 30 * int (length matching_types),
                  rs0 @ [str ''Actividad de tipo '' @ [39] @ first @ [39]
                           @ str '' ayuda en tu situaci'' @ o_acute @ str ''n'']));
          sc2 = (if list_ex (\<lambda>atype. atype \<in> set avd) (activity_types p) then sc1 - 50 else sc1);
          nombre_lower = lower (nombre p);
          matching_kw = filter (\<lambda>kw. str_in (lower kw) nombre_lower) kws;
          (sc3, rs3) =
            (if matching_kw \<noteq> []
             then (sc2 + 15 * int (length matching_kw),
                   rs1 @ [str ''Incluye: '' @ join (str '', '') (slice_to matching_kw 2)])
             else (sc2, rs1));
          (sc4, rs4) =
            (if promocion p
             then (sc3 + 5, rs3 @ [str ''En promoci'' @ o_acute @ str ''n''])
             else (sc3, rs3))
      in hobby_loop lower nombre_lower p (hobbies profile) (sc4, rs4))"

text \<open>The loop over the products: a product is appended when its score is positive.\<close>

fun recommend_loop ::
  "(pystr \<Rightarrow> pystr) \<Rightarrow> pystr list \<Rightarrow> pystr list \<Rightarrow> pystr list \<Rightarrow> UserProfile \<Rightarrow> Product list
     \<Rightarrow> Recommendation list \<Rightarrow> Recommendation list"
where
  "recommend_loop lower benef avd kws profile [] recommendations = recommendations"
| "recommend_loop lower benef avd kws profile (p # ps) recommendations =
     (case score_product lower benef avd kws profile p of
        (sc, rs) \<Rightarrow>
          recommend_loop lower benef avd kws profile ps
            (if 0 < sc
             then recommendations @ [\<lparr> product = p, score = sc, reasons = rs \<rparr>]
             else recommendations))"

text \<open>
  \<^verbatim>\<open>recommendations.sort(key=lambda r: r.score, reverse=True)\<close>: the builtin sort is
  stable, also with \<^verbatim>\<open>reverse=True\<close>, so it is the stable sort on the negated score.
  The source has no \<^verbatim>\<open>raise\<close> and no check of \<open>top_n\<close> on any path, so \<open>recommend\<close>
  is a total function of its arguments; \<open>products\<close> is the loaded catalog of the engine.
\<close>

definition recommend ::
  "(pystr \<Rightarrow> pystr) \<Rightarrow> Product list \<Rightarrow> UserProfile \<Rightarrow> Situation \<Rightarrow> int \<Rightarrow> Recommendation list"
where
  "recommend lower products profile situation top_n =
     (if products = [] then []
      else
        let config = get_config (sit_type situation);
            recommendations =
              recommend_loop lower (beneficial config) (avoid config) (sit_keywords config)
                profile products []
        in slice_to (sort_key (\<lambda>r. - score r) recommendations) top_n)"

section \<open>ProductTagger\<close>

definition ACTIVITY_KEYWORDS :: "(pystr \<times> pystr list) list" where
  "ACTIVITY_KEYWORDS = [
    (str ''naturaleza'',
      [str ''ecol'' @ o_acute @ str ''gic'', str ''natural'', str ''caminata'',
       str ''senderismo'', str ''lagosol'', str ''parque'', str ''jard'' @ i_acute @ str ''n'']),
    (str ''agua'',
      [str ''acu'' @ a_acute @ str ''tico'', str ''piscina'', str ''nataci'' @ o_acute @ str ''n'',
       str ''spa'', str ''agua'', str ''lagosol'']),
    (str ''ejercicio'',
      [str ''deporte'', str ''gimnasio'', str ''nataci'' @ o_acute @ str ''n'', str ''fitness'',
       str ''ejercicio'']),
    (str ''social'',
      [str ''grupo'', str ''club'', str ''taller'', str ''clase'', str ''comunidad'']),
    (str ''mindfulness'',
      [str ''yoga'', str ''meditaci'' @ o_acute @ str ''n'', str ''bienestar'',
       str ''relajaci'' @ o_acute @ str ''n'', str ''mindfulness'']),
    (str ''baja_estimulacion'',
      [str ''descanso'', str ''tranquilo'', str ''estad'' @ i_acute @ str ''a'', str ''spa'',
       str ''relax'', str ''pasad'' @ i_acute @ str ''a'']),
    (str ''expresion_artistica'',
      [str ''arte'', str ''pintura'', str ''m'' @ u_acute @ str ''sica'', str ''teatro'',
       str ''taller creativo'', str ''manualidades'']),
    (str ''turismo'',
      [str ''pasad'' @ i_acute @ str ''a'', str ''entrada'', str ''tour'', str ''viaje'',
       str ''escapada''])
  ]"

text \<open>
  \<^verbatim>\<open>_infer_situations\<close>: the situations one of whose beneficial types is among the
  given activity types, in the order of the knowledge base.
\<close>

definition infer_situations :: "pystr list \<Rightarrow> pystr list" where
  "infer_situations atypes =
     map fst
       (filter (\<lambda>(sit, config). list_ex (\<lambda>atype. atype \<in> set (beneficial config)) atypes)
          SITUATION_CONFIG)"

text \<open>
  \<^verbatim>\<open>tag_product\<close> assigns to two fields of the product it is given and returns it. The
  situations are inferred from the types found, before the fallback \<^verbatim>\<open>["general"]\<close>.
\<close>

definition tag_product :: "(pystr \<Rightarrow> pystr) \<Rightarrow> Product \<Rightarrow> Product" where
  "tag_product lower p =
     (let text = lower (nombre p @ str '' '' @ categoria_principal p @ str '' ''
                        @ subcategoria p @ str '' ''
                        @ (case descripcion p of None \<Rightarrow> [] | Some d \<Rightarrow> d));
          atypes = map fst
            (filter (\<lambda>(activity_type, kws). list_ex (\<lambda>kw. str_in (lower kw) text) kws)
               ACTIVITY_KEYWORDS)
      in p \<lparr> activity_types := (if atypes \<noteq> [] then atypes else [str ''general'']),
              situation_tags := infer_situations atypes \<rparr>)"

section \<open>RecommendationEngine._load_products\<close>

text \<open>
  A raw entry of the JSON file is a dictionary: a key is absent, or present with
  \<^verbatim>\<open>null\<close>, or present with a value. The value of \<^verbatim>\<open>precio\<close> is a dictionary with the
  key \<^verbatim>\<open>valor_numerico\<close>, or a value of another kind. A value that is not \<^verbatim>\<open>null\<close> is
  taken to have the type the dataclass declares for the field.
\<close>

datatype 'a json_field = Absent | Null | Present 'a

datatype raw_precio = PrecioDict "real json_field" | PrecioOther

record RawProduct =
  raw_id :: "pystr json_field"
  raw_nombre :: "pystr json_field"
  raw_categoria_principal :: "pystr json_field"
  raw_subcategoria :: "pystr json_field"
  raw_precio :: "raw_precio json_field"
  raw_url :: "pystr json_field"
  raw_imagen_url :: "pystr json_field"
  raw_promocion :: "bool json_field"
  raw_descripcion :: "pystr json_field"

text \<open>
  \<^verbatim>\<open>raw.get(key)\<close> and \<^verbatim>\<open>raw.get(key, default)\<close>; the result \<open>None\<close> is Python's
  \<^verbatim>\<open>None\<close>. The default stands for an absent key only: a key present with \<^verbatim>\<open>null\<close>
  gives \<^verbatim>\<open>None\<close> with or without a default.
\<close>

definition raw_get :: "'a json_field \<Rightarrow> 'a option" where
  "raw_get v = (case v of Absent \<Rightarrow> None | Null \<Rightarrow> None | Present x \<Rightarrow> Some x)"

definition get_or :: "'a json_field \<Rightarrow> 'a \<Rightarrow> 'a option" where
  "get_or v dflt = (case v of Absent \<Rightarrow> Some dflt | Null \<Rightarrow> None | Present x \<Rightarrow> Some x)"

text \<open>
  The dataclass does not check the types of its fields, so the object the loader builds
  holds \<^verbatim>\<open>None\<close> in every field whose key is present with \<^verbatim>\<open>null\<close>. \<open>StoredProduct\<close> is
  that object; \<open>Product\<close> above is the object with every field of its declared type, the
  one the engine's string operations are defined on.
\<close>

record StoredProduct =
  st_id :: "pystr option"
  st_nombre :: "pystr option"
  st_categoria_principal :: "pystr option"
  st_subcategoria :: "pystr option"
  st_precio_desde :: "real option"
  st_url :: "pystr option"
  st_imagen_url :: "pystr option"
  st_promocion :: "bool option"
  st_descripcion :: "pystr option"
  st_activity_types :: "pystr list"
  st_situation_tags :: "pystr list"

definition make_product :: "RawProduct \<Rightarrow> StoredProduct" where
  "make_product raw =
     (let precio = get_or (raw_precio raw) (PrecioDict Absent) in
      \<lparr> st_id = get_or (raw_id raw) [],
        st_nombre = get_or (raw_nombre raw) [],
        st_categoria_principal = get_or (raw_categoria_principal raw) [],
        st_subcategoria = get_or (raw_subcategoria raw) [],
        st_precio_desde =
          (case precio of Some (PrecioDict v) \<Rightarrow> get_or v 0 | _ \<Rightarrow> Some 0),
        st_url = get_or (raw_url raw) [],
        st_imagen_url = get_or (raw_imagen_url raw) [],
        st_promocion = get_or (raw_promocion raw) False,
        st_descripcion = raw_get (raw_descripcion raw),
        st_activity_types = [],
        st_situation_tags = [] \<rparr>)"

text \<open>A field inside an f-string: \<^verbatim>\<open>None\<close> is printed as the word \<^verbatim>\<open>None\<close>.\<close>

definition py_format :: "pystr option \<Rightarrow> pystr" where
  "py_format v = (case v of None \<Rightarrow> str ''None'' | Some s \<Rightarrow> s)"

text \<open>\<^verbatim>\<open>tag_product\<close> on the object the loader built.\<close>

definition tag_stored :: "(pystr \<Rightarrow> pystr) \<Rightarrow> StoredProduct \<Rightarrow> StoredProduct" where
  "tag_stored lower sp =
     (let text = lower (py_format (st_nombre sp) @ str '' ''
                        @ py_format (st_categoria_principal sp) @ str '' ''
                        @ py_format (st_subcategoria sp) @ str '' ''
                        @ (case st_descripcion sp of None \<Rightarrow> [] | Some d \<Rightarrow> d));
          atypes = map fst
            (filter (\<lambda>(activity_type, kws). list_ex (\<lambda>kw. str_in (lower kw) text) kws)
               ACTIVITY_KEYWORDS)
      in sp \<lparr> st_activity_types := (if atypes \<noteq> [] then atypes else [str ''general'']),
               st_situation_tags := infer_situations atypes \<rparr>)"

text \<open>
  The loop of \<^verbatim>\<open>_load_products\<close>; its state is the set \<^verbatim>\<open>seen_ids\<close>, which holds what
  \<^verbatim>\<open>raw.get('id')\<close> returned (\<open>None\<close> for an identifier absent or \<^verbatim>\<open>null\<close>), and the
  list \<^verbatim>\<open>self.products\<close>.
\<close>

fun load_loop ::
  "(pystr \<Rightarrow> pystr) \<Rightarrow> RawProduct list \<Rightarrow> pystr option set \<Rightarrow> StoredProduct list
     \<Rightarrow> StoredProduct list"
where
  "load_loop lower [] seen_ids products = products"
| "load_loop lower (raw # rest) seen_ids products =
     (if raw_get (raw_id raw) \<in> seen_ids then load_loop lower rest seen_ids products
      else load_loop lower rest (insert (raw_get (raw_id raw)) seen_ids)
             (products @ [tag_stored lower (make_product raw)]))"

text \<open>The file is \<open>None\<close> when the path does not exist: the catalog stays empty.\<close>

definition load_products ::
  "(pystr \<Rightarrow> pystr) \<Rightarrow> RawProduct list option \<Rightarrow> StoredProduct list"
where
  "load_products lower file =
     (case file of None \<Rightarrow> [] | Some raw_products \<Rightarrow> load_loop lower raw_products {} [])"

text \<open>
  A stored object all of whose fields but the optional description hold a value is a
  \<open>Product\<close>; a catalog of such objects is a catalog the engine is defined on.
\<close>

definition as_product :: "StoredProduct \<Rightarrow> Product option" where
  "as_product sp =
     (case (st_id sp, st_nombre sp, st_categoria_principal sp, st_subcategoria sp) of
        (Some i, Some n, Some c, Some s) \<Rightarrow>
          (case (st_precio_desde sp, st_url sp, st_imagen_url sp, st_promocion sp) of
             (Some pr, Some u, Some im, Some promo) \<Rightarrow>
               Some \<lparr> prod_id = i, nombre = n, categoria_principal = c, subcategoria = s,
                      precio_desde = pr, url = u, imagen_url = im, promocion = promo,
                      descripcion = st_descripcion sp,
                      activity_types = st_activity_types sp,
                      situation_tags = st_situation_tags sp \<rparr>
           | _ \<Rightarrow> None)
      | _ \<Rightarrow> None)"

definition as_catalog :: "StoredProduct list \<Rightarrow> Product list option" where
  "as_catalog stored = those (map as_product stored)"

section \<open>EmpathicMessageGenerator\<close>

definition CONFRONTATION :: "(pystr \<times> (pystr \<times> pystr) list) list" where
  "CONFRONTATION = [
    (str ''perdida_familiar'', [
      (str ''padres'', str ''enfrentarte a la p'' @ e_acute @ str ''rdida de tus padres''),
      (str ''pareja'', str ''atravesar la p'' @ e_acute @ str ''rdida de tu compa'' @ n_tilde
                        @ str ''ero/a de vida''),
      (str ''hijo'', str ''sobrellevar la p'' @ e_acute @ str ''rdida m'' @ a_acute
                        @ str ''s dif'' @ i_acute @ str ''cil que existe''),
      (str ''hermano'', str ''procesar la partida de tu hermano/a''),
      (str ''general'', str ''enfrentar la partida de alguien que amabas'')]),
    (str ''ruptura_amorosa'', [
      (str ''reciente'', str ''procesar el fin de una relaci'' @ o_acute @ str ''n importante''),
      (str ''larga'', str ''cerrar un cap'' @ i_acute @ str ''tulo significativo de tu vida''),
      (str ''general'', str ''sanar despu'' @ e_acute @ str ''s de una ruptura'')]),
    (str ''ansiedad'', [
      (str ''laboral'', str ''manejar la presi'' @ o_acute @ str ''n que el trabajo pone sobre ti''),
      (str ''social'', str ''navegar el peso de las interacciones sociales''),
      (str ''general'', str ''lidiar con pensamientos que no te dan tregua'')]),
    (str ''soledad'', [
      (str ''mudanza'', str ''construir conexiones en un lugar nuevo''),
      (str ''aislamiento'', str ''romper el ciclo de aislamiento''),
      (str ''general'', str ''encontrar tu lugar entre otros'')]),
    (str ''estres_laboral'', [
      (str ''burnout'', str ''recuperarte del agotamiento profesional''),
      (str ''presion'', str ''sostener el peso de m'' @ u_acute @ str ''ltiples responsabilidades''),
      (str ''general'', str ''encontrar equilibrio entre trabajo y vida'')]),
    (str ''duelo'', [
      (str ''reciente'', str ''atravesar los primeros momentos del duelo''),
      (str ''prolongado'', str ''continuar tu camino mientras honras la memoria''),
      (str ''general'', str ''procesar una p'' @ e_acute @ str ''rdida profunda'')])
  ]"

definition CALMING :: "(pystr \<times> pystr list) list" where
  "CALMING = [
    (str ''perdida_familiar'', [
      str ''Este dolor es parte de haber amado profundamente.'',
      str ''No hay tiempo correcto para sanar, solo el tuyo.'',
      str ''Cada d'' @ i_acute @ str ''a que enfrentas es un acto de valent'' @ i_acute @ str ''a.'']),
    (str ''ruptura_amorosa'', [
      str ''Lo que sientes ahora no es permanente.'',
      str ''El vac'' @ i_acute @ str ''o actual dejar'' @ a_acute @ str '' espacio para algo nuevo.'',
      str ''Mereces tiempo para reconstruirte.'']),
    (str ''ansiedad'', [
      str ''La calma es una habilidad que se entrena.'',
      str ''Tu mente trabaja de m'' @ a_acute @ str ''s tratando de protegerte.'',
      str ''Peque'' @ n_tilde @ str ''os momentos de paz se acumulan.'']),
    (str ''soledad'', [
      str ''Buscar conexi'' @ o_acute @ str ''n es se'' @ n_tilde @ str ''al de fortaleza.'',
      str ''Las mejores amistades empiezan con un primer paso.'',
      str ''Tu presencia tiene valor aunque no lo sientas.'']),
    (str ''estres_laboral'', [
      str ''Tu valor no se mide en horas trabajadas.'',
      str ''Descansar es parte del trabajo bien hecho.'',
      str ''Nadie funciona bien con el tanque vac'' @ i_acute @ str ''o.'']),
    (str ''duelo'', [
      str ''El duelo no es algo que superar, sino integrar.'',
      str ''Honrar lo que perdiste tambi'' @ e_acute @ str ''n es vivir.'',
      str ''No tienes que estar bien, solo tienes que seguir.''])
  ]"

definition ACTIVITY_BENEFITS :: "(pystr \<times> pystr) list" where
  "ACTIVITY_BENEFITS = [
    (str ''naturaleza'', str ''la naturaleza tiene un efecto restaurador comprobado''),
    (str ''agua'', str ''el agua ayuda a liberar tensiones acumuladas''),
    (str ''mindfulness'', str ''calmar la mente es el primer paso hacia la paz interior''),
    (str ''ejercicio'', str ''el movimiento f'' @ i_acute @ str ''sico libera tensi'' @ o_acute
                          @ str ''n y mejora el '' @ a_acute @ str ''nimo''),
    (str ''social'', str ''conectar con otros nos recuerda que no estamos solos''),
    (str ''baja_estimulacion'', str ''a veces el mejor paso es simplemente pausar''),
    (str ''expresion_artistica'', str ''expresar lo que las palabras no alcanzan''),
    (str ''turismo'', str ''cambiar de ambiente ayuda a ganar perspectiva'')
  ]"

text \<open>\<^verbatim>\<open>_connect_hobby\<close>: the first hobby found in the product's text, else the first hobby.\<close>

fun connect_hobby_loop :: "(pystr \<Rightarrow> pystr) \<Rightarrow> pystr \<Rightarrow> pystr list \<Rightarrow> pystr option" where
  "connect_hobby_loop lower product_text [] = None"
| "connect_hobby_loop lower product_text (hobby # rest) =
     (if str_in (lower hobby) product_text then Some hobby
      else connect_hobby_loop lower product_text rest)"

definition connect_hobby :: "(pystr \<Rightarrow> pystr) \<Rightarrow> pystr list \<Rightarrow> Product \<Rightarrow> pystr" where
  "connect_hobby lower hobby_list p =
     (let product_text = lower (nombre p @ str '' '' @ subcategoria p) in
      case connect_hobby_loop lower product_text hobby_list of
        Some hobby \<Rightarrow>
          str ''aprovechando tu gusto por '' @ lower hobby @ str '', te recomendamos '' @ nombre p
      | None \<Rightarrow>
          (case hobby_list of
             first # _ \<Rightarrow>
               str ''combinando tu inter'' @ e_acute @ str ''s en '' @ lower first
                 @ str '' con algo nuevo, te sugerimos '' @ nombre p
           | [] \<Rightarrow> str ''te recomendamos '' @ nombre p))"

text \<open>\<^verbatim>\<open>_get_benefit\<close>: the benefit of the first activity type the table knows, else \<^verbatim>\<open>""\<close>.\<close>

fun get_benefit :: "pystr list \<Rightarrow> pystr" where
  "get_benefit [] = []"
| "get_benefit (atype # rest) =
     (case map_of ACTIVITY_BENEFITS atype of
        Some benefit \<Rightarrow> benefit
      | None \<Rightarrow> get_benefit rest)"

text \<open>
  \<^verbatim>\<open>generate\<close>. With no recommendation it returns the fallback sentence at once; the
  truncation to 500 characters stands at the end of the other path only.
\<close>

definition generate ::
  "(pystr \<Rightarrow> pystr) \<Rightarrow> nat \<Rightarrow> UserProfile \<Rightarrow> Situation \<Rightarrow> Recommendation list \<Rightarrow> pystr"
where
  "generate lower rnd profile situation recommendations =
     (case recommendations of
        [] \<Rightarrow> name profile @ str '', estamos buscando las mejores opciones para ti.''
      | top_rec # _ \<Rightarrow>
         (let sit_phrases =
                (case map_of CONFRONTATION (sit_type situation) of
                   Some phrases \<Rightarrow> phrases | None \<Rightarrow> []);
              confrontation =
                (case map_of sit_phrases (subtype situation) of
                   Some phrase \<Rightarrow> phrase
                 | None \<Rightarrow>
                     (case map_of sit_phrases (str ''general'') of
                        Some phrase \<Rightarrow> phrase
                      | None \<Rightarrow> str ''enfrentar este momento''));
              calm_options =
                (case map_of CALMING (sit_type situation) of
                   Some options \<Rightarrow> options
                 | None \<Rightarrow> [str ''Lo que sientes es v'' @ a_acute @ str ''lido.'']);
              calming = random_choice rnd calm_options;
              hobby_phrase = connect_hobby lower (hobbies profile) (product top_rec);
              benefit = get_benefit (activity_types (product top_rec));
              message0 = name profile @ str '', s'' @ e_acute @ str '' que hoy te toca ''
                           @ confrontation @ str ''. '' @ calming @ str '' Por eso, ''
                           @ hobby_phrase;
              message1 = (if benefit \<noteq> []
                          then message0 @ str '' '' @ em_dash @ str '' '' @ benefit @ str ''.''
                          else message0);
              message2 =
                (case goals profile of
                   goal # _ \<Rightarrow>
                     if length message1 < 420
                     then message1 @ str '' Un paso hacia '' @ lower goal @ str ''.''
                     else message1
                 | [] \<Rightarrow> message1)
          in if 500 < length message2
             then (let last_period = rfind (take 497 message2) 46 in
                   if 300 < last_period then slice_to message2 (last_period + 1)
                   else take 497 message2 @ str ''...'')
             else message2))"

section \<open>The scoring rule in the words of the specification\<close>

text \<open>
  The specification states the score of an entry as a sum of five components. The
  definitions of this section follow its sentences; the theorems below compare them with
  \<open>score_product\<close>, which follows the source.
\<close>

text \<open>A hobby matches an entry when its lower-cased text occurs in the lower-cased name or subcategory.\<close>

definition hobby_match :: "(pystr \<Rightarrow> pystr) \<Rightarrow> Product \<Rightarrow> pystr \<Rightarrow> bool" where
  "hobby_match lower p hobby =
     (str_in (lower hobby) (lower (nombre p)) \<or> str_in (lower hobby) (lower (subcategoria p)))"

text \<open>Plus 30 for each trait in the beneficial set, minus a flat 50 if any trait is in the avoid set.\<close>

definition trait_points :: "SituationConfig \<Rightarrow> Product \<Rightarrow> int" where
  "trait_points config p =
     30 * int (length (filter (\<lambda>atype. atype \<in> set (beneficial config)) (activity_types p)))
     - (if list_ex (\<lambda>atype. atype \<in> set (avoid config)) (activity_types p) then 50 else 0)"

text \<open>
  Plus 15 for each situation keyword occurring in the lower-cased name, plus 5 for a
  promotion, plus 10 for each matching hobby.
\<close>

definition bonus_points ::
  "(pystr \<Rightarrow> pystr) \<Rightarrow> SituationConfig \<Rightarrow> UserProfile \<Rightarrow> Product \<Rightarrow> int"
where
  "bonus_points lower config profile p =
     15 * int (length (filter (\<lambda>kw. str_in kw (lower (nombre p))) (sit_keywords config)))
     + (if promocion p then 5 else 0)
     + 10 * int (length (filter (hobby_match lower p) (hobbies profile)))"

definition spec_score ::
  "(pystr \<Rightarrow> pystr) \<Rightarrow> SituationConfig \<Rightarrow> UserProfile \<Rightarrow> Product \<Rightarrow> int"
where
  "spec_score lower config profile p =
     trait_points config p + bonus_points lower config profile p"

text \<open>
  The source lower-cases each keyword before it looks for it in the name, the
  specification does not. The keywords of the knowledge base are written in lower case, so
  the builtin leaves them as they are; this is the one property of \<open>lower\<close> that a
  theorem below asks for.
\<close>

definition keywords_lower_case :: "(pystr \<Rightarrow> pystr) \<Rightarrow> bool" where
  "keywords_lower_case lower =
     list_all (\<lambda>(t, config). list_all (\<lambda>kw. lower kw = kw) (sit_keywords config))
       SITUATION_CONFIG"

text \<open>The reason recorded for a beneficial activity type.\<close>

definition type_reason :: "pystr \<Rightarrow> pystr" where
  "type_reason atype = str ''Actividad de tipo '' @ [39] @ atype @ [39]
                         @ str '' ayuda en tu situaci'' @ o_acute @ str ''n''"

text \<open>An entry of the catalog with the score and the reasons the loop computes for it.\<close>

definition scored_entry ::
  "(pystr \<Rightarrow> pystr) \<Rightarrow> SituationConfig \<Rightarrow> UserProfile \<Rightarrow> Product \<Rightarrow> Recommendation"
where
  "scored_entry lower config profile p =
     (case score_product lower (beneficial config) (avoid config) (sit_keywords config) profile p of
        (sc, rs) \<Rightarrow> \<lparr> product = p, score = sc, reasons = rs \<rparr>)"

text \<open>The entries with a positive score, in the order of the catalog.\<close>

definition positive_entries ::
  "(pystr \<Rightarrow> pystr) \<Rightarrow> Product list \<Rightarrow> UserProfile \<Rightarrow> Situation \<Rightarrow> Recommendation list"
where
  "positive_entries lower products profile situation =
     filter (\<lambda>r. 0 < score r)
       (map (scored_entry lower (get_config (sit_type situation)) profile) products)"

section \<open>Example data\<close>

text \<open>
  The first case of \<^verbatim>\<open>run_demo\<close>, and a small catalog of tagged products; one of them
  carries a type the situation avoids, two of them end with the same score.
\<close>

definition demo_profile :: UserProfile where
  "demo_profile = \<lparr> user_id = str ''001'', name = str ''Ricardo'', age = 59,
     gender = str ''masculino'',
     hobbies = [str ''lectura'', str ''jardiner'' @ i_acute @ str ''a'', str ''caminar''],
     goals = [str ''fortalecer relaciones personales'', str ''aprovechar el tiempo''] \<rparr>"

definition demo_situation :: Situation where
  "demo_situation = \<lparr> sit_type = str ''perdida_familiar'', subtype = str ''padres'',
     sit_context = str ''Acaba de perder a sus padres por enfermedad'' \<rparr>"

definition demo_product :: "pystr \<Rightarrow> pystr \<Rightarrow> bool \<Rightarrow> pystr list \<Rightarrow> Product" where
  "demo_product ident nm promo atypes =
     \<lparr> prod_id = ident, nombre = nm, categoria_principal = str ''Bienestar'',
       subcategoria = str ''Planes'', precio_desde = 45000, url = [], imagen_url = [],
       promocion = promo, descripcion = None, activity_types = atypes, situation_tags = [] \<rparr>"

definition demo_yoga :: Product where
  "demo_yoga = demo_product (str ''p1'') (str ''Yoga'') False [str ''mindfulness'']"

definition demo_torneo :: Product where
  "demo_torneo = demo_product (str ''p2'') (str ''Torneo'') True [str ''competitivo'']"

definition demo_spa :: Product where
  "demo_spa = demo_product (str ''p3'') (str ''Spa'') True [str ''agua'', str ''baja_estimulacion'']"

definition demo_parque :: Product where
  "demo_parque = demo_product (str ''p4'') (str ''Parque'') False [str ''naturaleza'']"

definition demo_taller :: Product where
  "demo_taller = demo_product (str ''p5'') (str ''Taller de lectura'') False [str ''social'']"

definition demo_catalog :: "Product list" where
  "demo_catalog = [demo_yoga, demo_torneo, demo_spa, demo_parque, demo_taller]"

text \<open>A raw entry with neither identifier nor name, on promotion.\<close>

definition demo_raw_nameless :: RawProduct where
  "demo_raw_nameless =
     \<lparr> raw_id = Absent, raw_nombre = Absent, raw_categoria_principal = Absent,
       raw_subcategoria = Absent, raw_precio = Absent, raw_url = Absent,
       raw_imagen_url = Absent, raw_promocion = Present True, raw_descripcion = Absent \<rparr>"

text \<open>The same entry with its name present and \<^verbatim>\<open>null\<close>.\<close>

definition demo_raw_null_name :: RawProduct where
  "demo_raw_null_name = demo_raw_nameless \<lparr> raw_nombre := Null \<rparr>"

text \<open>What is read off a recommendation in the examples: identifier, score, number of reasons.\<close>

definition summary :: "Recommendation \<Rightarrow> pystr \<times> int \<times> nat" where
  "summary r = (prod_id (product r), score r, length (reasons r))"

text \<open>
  The product the loader builds from \<open>demo_raw_nameless\<close>: every absent key has its
  default, and no keyword occurs in its text.
\<close>

definition demo_nameless :: Product where
  "demo_nameless =
     \<lparr> prod_id = [], nombre = [], categoria_principal = [], subcategoria = [],
       precio_desde = 0, url = [], imagen_url = [], promocion = True, descripcion = None,
       activity_types = [str ''general''], situation_tags = [] \<rparr>"

section \<open>Lemmas on the primitives\<close>

lemma str_in_iff: "str_in a b \<longleftrightarrow> (\<exists>ps ss. b = ps @ a @ ss)"
proof (induction b)
  case Nil
  then show ?case by auto
next
  case (Cons c cs)
  have "sublist a (c # cs) \<longleftrightarrow> prefix a (c # cs) \<or> sublist a cs"
    by (rule sublist_Cons_right)
  with Cons show ?case by (simp add: sublist_def)
qed

lemma str_in_append: "str_in a (a @ b)"
  unfolding str_in_iff by (intro exI[of _ "[]"] exI[of _ b]) simp

lemma rfind_less: "rfind s c < int (length s)"
  by (induction s) (auto simp: Let_def)

lemma set_slice_to: "set (slice_to xs n) \<subseteq> set xs"
  by (auto simp: slice_to_def dest: in_set_takeD)

lemma map_slice_to: "map f (slice_to xs n) = slice_to (map f xs) n"
  by (simp add: slice_to_def take_map)

lemma length_slice_to_nonneg: "0 \<le> n \<Longrightarrow> int (length (slice_to xs n)) \<le> n"
  by (simp add: slice_to_def)

section \<open>Lemmas on the message\<close>

lemma length_truncated:
  "length (if 500 < length m
           then (if 300 < rfind (take 497 m) 46 then slice_to m (rfind (take 497 m) 46 + 1)
                 else take 497 m @ str ''...'')
           else m) \<le> 500"
proof (cases "500 < length m")
  case False
  then show ?thesis by simp
next
  case long: True
  have "rfind (take 497 m) 46 < int (length (take 497 m))" by (rule rfind_less)
  then have lp: "rfind (take 497 m) 46 + 1 \<le> 497" by simp
  show ?thesis
  proof (cases "300 < rfind (take 497 m) 46")
    case True
    then have "int (length (slice_to m (rfind (take 497 m) 46 + 1))) \<le> rfind (take 497 m) 46 + 1"
      by (intro length_slice_to_nonneg) simp
    with lp long True show ?thesis by simp
  next
    case False
    with long show ?thesis by (simp add: str_def)
  qed
qed

text \<open>With a recommendation at hand the message is truncated, whatever the inputs.\<close>

lemma generate_nonempty_le_500:
  "length (generate lower rnd profile situation (top_rec # rest)) \<le> 500"
  unfolding generate_def list.case Let_def by (rule length_truncated)

lemma length_generate_empty:
  "length (generate lower rnd profile situation []) = length (name profile) + 48"
  by (simp add: generate_def str_def)

lemma calm_options_nonempty:
  "(case map_of CALMING t of Some options \<Rightarrow> options
    | None \<Rightarrow> [str ''Lo que sientes es v'' @ a_acute @ str ''lido.'']) \<noteq> []"
  by (auto simp: CALMING_def split: option.splits if_splits)

section \<open>Lemmas on the scoring loop\<close>

lemma hobby_loop_eq:
  "hobby_loop lower (lower (nombre p)) p hs (sc, rs) =
     (sc + 10 * int (length (filter (hobby_match lower p) hs)),
      rs @ map (\<lambda>h. str ''Conecta con tu inter'' @ e_acute @ str ''s en '' @ h)
             (filter (hobby_match lower p) hs))"
  by (induction hs arbitrary: sc rs) (simp_all add: hobby_match_def Let_def)

lemma recommend_loop_eq:
  "recommend_loop lower (beneficial config) (avoid config) (sit_keywords config) profile ps recs =
     recs @ filter (\<lambda>r. 0 < score r) (map (scored_entry lower config profile) ps)"
  by (induction ps arbitrary: recs) (simp_all add: scored_entry_def split: prod.splits)

lemma recommend_eq:
  "recommend lower products profile situation top_n =
     slice_to (sort_key (\<lambda>r. - score r) (positive_entries lower products profile situation)) top_n"
  by (simp add: recommend_def recommend_loop_eq positive_entries_def Let_def slice_to_def)

lemma in_recommendD:
  assumes "r \<in> set (recommend lower products profile situation top_n)"
  shows "r \<in> set (positive_entries lower products profile situation)"
proof -
  from assms have "r \<in> set (slice_to (sort_key (\<lambda>r. - score r)
      (positive_entries lower products profile situation)) top_n)"
    by (simp only: recommend_eq)
  with set_slice_to have "r \<in> set (sort_key (\<lambda>r. - score r)
      (positive_entries lower products profile situation))"
    by (rule rev_subsetD[rotated])
  then show ?thesis by (simp only: set_sort)
qed

lemma in_positive_entriesD:
  assumes "r \<in> set (positive_entries lower products profile situation)"
  shows "0 < score r" and "product r \<in> set products"
    and "r = scored_entry lower (get_config (sit_type situation)) profile (product r)"
proof -
  from assms show "0 < score r" by (simp add: positive_entries_def)
  from assms obtain p where p: "p \<in> set products"
      and r: "r = scored_entry lower (get_config (sit_type situation)) profile p"
    unfolding positive_entries_def by (simp only: set_filter set_map) blast
  have "product (scored_entry lower (get_config (sit_type situation)) profile p) = p"
    by (simp add: scored_entry_def split: prod.splits)
  with p r show "product r \<in> set products"
    and "r = scored_entry lower (get_config (sit_type situation)) profile (product r)"
    by simp_all
qed

lemma score_product_reasons:
  "score_product lower benef avd kws profile p = (sc, rs) \<Longrightarrow> 0 < sc \<Longrightarrow> rs \<noteq> []"
  unfolding score_product_def Let_def hobby_loop_eq
  by (auto split: list.splits if_splits prod.splits)

lemma scored_entry_reasons:
  "0 < score (scored_entry lower config profile p)
     \<Longrightarrow> reasons (scored_entry lower config profile p) \<noteq> []"
  by (auto simp: scored_entry_def split: prod.splits dest: score_product_reasons)

lemma keywords_lower_caseD:
  assumes "keywords_lower_case lower" and "kw \<in> set (sit_keywords (get_config t))"
  shows "lower kw = kw"
proof (cases "map_of SITUATION_CONFIG t")
  case None
  with assms(2) show ?thesis by (simp add: get_config_def)
next
  case (Some config)
  then have "(t, config) \<in> set SITUATION_CONFIG" by (rule map_of_SomeD)
  with assms(1) have "list_all (\<lambda>kw. lower kw = kw) (sit_keywords config)"
    by (auto simp: keywords_lower_case_def list_all_iff)
  with assms(2) Some show ?thesis by (simp add: get_config_def list_all_iff)
qed

lemma score_product_fst:
  "fst (score_product lower (beneficial config) (avoid config) (sit_keywords config) profile p) =
     30 * int (length (filter (\<lambda>atype. atype \<in> set (beneficial config)) (activity_types p)))
     - (if list_ex (\<lambda>atype. atype \<in> set (avoid config)) (activity_types p) then 50 else 0)
     + 15 * int (length (filter (\<lambda>kw. str_in (lower kw) (lower (nombre p))) (sit_keywords config)))
     + (if promocion p then 5 else 0)
     + 10 * int (length (filter (hobby_match lower p) (hobbies profile)))"
  unfolding score_product_def Let_def hobby_loop_eq
  by (simp split: list.splits prod.splits)

lemma score_product_spec:
  assumes "\<And>kw. kw \<in> set (sit_keywords config) \<Longrightarrow> lower kw = kw"
  shows "fst (score_product lower (beneficial config) (avoid config) (sit_keywords config) profile p)
           = spec_score lower config profile p"
proof -
  have "filter (\<lambda>kw. str_in (lower kw) (lower (nombre p))) (sit_keywords config)
          = filter (\<lambda>kw. str_in kw (lower (nombre p))) (sit_keywords config)"
    by (rule filter_cong) (simp_all add: assms)
  then show ?thesis
    by (simp add: score_product_fst spec_score_def trait_points_def bonus_points_def)
qed

lemma score_scored_entry:
  "score (scored_entry lower config profile p)
     = fst (score_product lower (beneficial config) (avoid config) (sit_keywords config) profile p)"
  by (simp add: scored_entry_def split: prod.splits)

lemma score_product_first_reason:
  assumes "filter (\<lambda>atype. atype \<in> set benef) (activity_types p) = first # rest"
  shows "\<exists>more. snd (score_product lower benef avd kws profile p) = type_reason first # more"
  unfolding score_product_def Let_def hobby_loop_eq using assms
  by (simp add: type_reason_def split: prod.splits)

lemma score_product_avoided:
  assumes "\<And>kw. kw \<in> set (sit_keywords config) \<Longrightarrow> lower kw = kw"
    and "list_ex (\<lambda>atype. atype \<in> set (avoid config)) (activity_types p)"
    and "filter (\<lambda>atype. atype \<in> set (beneficial config)) (activity_types p) = []"
  shows "fst (score_product lower (beneficial config) (avoid config) (sit_keywords config) profile p)
           = bonus_points lower config profile p - 50"
proof -
  have "trait_points config p = - 50"
    using assms(2,3) by (simp add: trait_points_def)
  with score_product_spec [of config lower profile p, OF assms(1)]
  show ?thesis by (simp add: spec_score_def)
qed

lemma sorted_ranked:
  "sorted_wrt (\<lambda>a b. score b \<le> score a) (sort_key (\<lambda>r. - score r) (xs :: Recommendation list))"
proof -
  have "sorted (map (\<lambda>r. - score r) (sort_key (\<lambda>r. - score r) xs))"
    by (rule sorted_sort_key)
  then show ?thesis by (simp add: sorted_map)
qed

lemma stable_ranked:
  "filter (\<lambda>r. score r = k) (sort_key (\<lambda>r. - score r) (xs :: Recommendation list))
     = filter (\<lambda>r. score r = k) xs"
proof -
  have "filter (\<lambda>r. - score r = - k) (sort_key (\<lambda>r. - score r) xs)
          = filter (\<lambda>r. - score r = - k) xs"
    by (rule sort_key_stable)
  then show ?thesis by simp
qed

lemma length_positive_entries:
  "length (positive_entries lower products profile situation) \<le> length products"
  unfolding positive_entries_def
  by (rule order_trans[OF length_filter_le]) simp

lemma recommend_all:
  "recommend lower products profile situation (int (length products))
     = sort_key (\<lambda>r. - score r) (positive_entries lower products profile situation)"
  using length_positive_entries [of lower products profile situation]
  by (simp add: recommend_eq slice_to_def)

lemma product_scored_entry: "product (scored_entry lower config profile p) = p"
  by (simp add: scored_entry_def split: prod.splits)

lemma insort_key_map:
  "insort_key f (g x) (map g xs) = map g (insort_key (\<lambda>y. f (g y)) x xs)"
  by (induction xs) simp_all

lemma sort_key_map: "sort_key f (map g xs) = map g (sort_key (\<lambda>y. f (g y)) xs)"
  by (induction xs) (simp_all add: insort_key_map)

lemma positive_entries_map:
  "positive_entries lower products profile situation =
     map (scored_entry lower (get_config (sit_type situation)) profile)
       (filter (\<lambda>p. 0 < score (scored_entry lower (get_config (sit_type situation)) profile p))
          products)"
  by (simp add: positive_entries_def filter_map o_def)

lemma recommend_products:
  "map product (recommend lower products profile situation top_n) =
     slice_to
       (sort_key (\<lambda>p. - score (scored_entry lower (get_config (sit_type situation)) profile p))
          (filter (\<lambda>p. 0 < score (scored_entry lower (get_config (sit_type situation)) profile p))
             products))
       top_n"
  by (simp add: recommend_eq positive_entries_map sort_key_map map_slice_to
        product_scored_entry o_def)

lemma in_recommend_all:
  assumes "p \<in> set products"
    and "0 < score (scored_entry lower (get_config (sit_type situation)) profile p)"
  shows "scored_entry lower (get_config (sit_type situation)) profile p
           \<in> set (recommend lower products profile situation (int (length products)))"
  using assms by (simp add: recommend_all positive_entries_def)

section \<open>Lemmas on the loader\<close>

lemma load_loop_mono: "set products \<subseteq> set (load_loop lower raws seen products)"
proof (induction raws arbitrary: seen products)
  case Nil
  show ?case by simp
next
  case (Cons raw rest)
  show ?case
  proof (cases "raw_get (raw_id raw) \<in> seen")
    case True
    with Cons show ?thesis by simp
  next
    case False
    have "set products \<subseteq> set (products @ [tag_stored lower (make_product raw)])" by auto
    also have "\<dots> \<subseteq> set (load_loop lower rest (insert (raw_get (raw_id raw)) seen)
                            (products @ [tag_stored lower (make_product raw)]))"
      by (rule Cons.IH)
    finally show ?thesis using False by simp
  qed
qed

lemma load_loop_keeps:
  assumes "raw_get (raw_id raw) \<notin> seen"
    and "raw_get (raw_id raw) \<notin> (\<lambda>r. raw_get (raw_id r)) ` set pre"
  shows "tag_stored lower (make_product raw)
           \<in> set (load_loop lower (pre @ raw # post) seen products)"
  using assms
proof (induction pre arbitrary: seen products)
  case Nil
  have "tag_stored lower (make_product raw)
          \<in> set (products @ [tag_stored lower (make_product raw)])" by simp
  with load_loop_mono have "tag_stored lower (make_product raw)
          \<in> set (load_loop lower post (insert (raw_get (raw_id raw)) seen)
                    (products @ [tag_stored lower (make_product raw)]))"
    by (rule rev_subsetD[rotated])
  with Nil show ?case by simp
next
  case (Cons a pre)
  from Cons.prems have neq: "raw_get (raw_id raw) \<noteq> raw_get (raw_id a)"
    and rest: "raw_get (raw_id raw) \<notin> (\<lambda>r. raw_get (raw_id r)) ` set pre"
    by auto
  show ?case
  proof (cases "raw_get (raw_id a) \<in> seen")
    case True
    with Cons.IH [OF Cons.prems(1) rest] show ?thesis by simp
  next
    case False
    from Cons.prems(1) neq have "raw_get (raw_id raw) \<notin> insert (raw_get (raw_id a)) seen"
      by simp
    from Cons.IH [OF this rest] False show ?thesis by simp
  qed
qed

lemma those_SomeD: "those xs = Some ys \<Longrightarrow> xs = map Some ys"
  by (induction xs arbitrary: ys) (auto split: option.splits)

lemma as_catalog_member:
  assumes "as_catalog stored = Some ps" and "sp \<in> set stored" and "as_product sp = Some p"
  shows "p \<in> set ps"
proof -
  from assms(1) have "map as_product stored = map Some ps"
    unfolding as_catalog_def by (rule those_SomeD)
  moreover from assms(2,3) have "Some p \<in> set (map as_product stored)" by force
  ultimately show ?thesis by auto
qed

text \<open>
  On an object with every field of its type, the loader's tagging is \<open>tag_product\<close>.
\<close>

lemma as_product_tag_stored:
  "as_product sp = Some p \<Longrightarrow> as_product (tag_stored lower sp) = Some (tag_product lower p)"
  by (auto simp: as_product_def tag_stored_def tag_product_def py_format_def Let_def
        split: option.splits)

lemma make_product_name:
  "st_nombre (tag_stored lower (make_product raw)) = get_or (raw_nombre raw) []"
  "st_id (tag_stored lower (make_product raw)) = get_or (raw_id raw) []"
  by (simp_all add: tag_stored_def make_product_def Let_def)

text \<open>
  The types the tagger assigns are keys of \<open>ACTIVITY_KEYWORDS\<close> or \<^verbatim>\<open>general\<close>, and every
  product of a loaded catalog went through the tagger.
\<close>

lemma tag_stored_types:
  "set (st_activity_types (tag_stored lower sp))
     \<subseteq> insert (str ''general'') (set (map fst ACTIVITY_KEYWORDS))"
  by (auto simp: tag_stored_def Let_def)

lemma load_loop_tagged:
  "set (load_loop lower raws seen products) \<subseteq> set products \<union> range (tag_stored lower)"
proof (induction raws arbitrary: seen products)
  case Nil
  show ?case by simp
next
  case (Cons raw rest)
  show ?case
  proof (cases "raw_get (raw_id raw) \<in> seen")
    case True
    with Cons.IH [of seen products] show ?thesis by simp
  next
    case False
    have "set (load_loop lower rest (insert (raw_get (raw_id raw)) seen)
                 (products @ [tag_stored lower (make_product raw)]))
            \<subseteq> set (products @ [tag_stored lower (make_product raw)]) \<union> range (tag_stored lower)"
      by (rule Cons.IH)
    also have "\<dots> \<subseteq> set products \<union> range (tag_stored lower)" by auto
    finally show ?thesis using False by simp
  qed
qed

section \<open>The example evaluated\<close>

lemma demo_ranked:
  "map summary (sort_key (\<lambda>r. - score r)
      (positive_entries latin1_lower demo_catalog demo_profile demo_situation)) =
   [(str ''p3'', 80, 3), (str ''p1'', 30, 1), (str ''p4'', 30, 1), (str ''p5'', 10, 1)]"
  by code_simp

lemma demo_recommend:
  "map summary (recommend latin1_lower demo_catalog demo_profile demo_situation top_n) =
     slice_to [(str ''p3'', 80, 3), (str ''p1'', 30, 1), (str ''p4'', 30, 1), (str ''p5'', 10, 1)]
       top_n"
  by (simp only: recommend_eq map_slice_to demo_ranked)

lemma latin1_keywords_lower_case: "keywords_lower_case latin1_lower"
  by code_simp

lemma demo_spa_spec_score:
  "spec_score latin1_lower (get_config (sit_type demo_situation)) demo_profile demo_spa = 80"
  by code_simp

lemma demo_spa_tagged:
  "activity_types (tag_product latin1_lower demo_spa)
     = [str ''agua'', str ''mindfulness'', str ''baja_estimulacion'']
   \<and> situation_tags (tag_product latin1_lower demo_spa)
     = [str ''perdida_familiar'', str ''ruptura_amorosa'', str ''ansiedad'',
        str ''estres_laboral'', str ''duelo'']"
  by code_simp

lemma demo_recommend_products:
  "map product (recommend latin1_lower demo_catalog demo_profile demo_situation 3)
     = [demo_spa, demo_yoga, demo_parque]"
  by code_simp

lemma demo_spec_scores:
  "map (spec_score latin1_lower (get_config (sit_type demo_situation)) demo_profile)
     [demo_spa, demo_yoga, demo_parque] = [80, 30, 30]"
  by code_simp

lemma demo_nameless_loaded:
  "as_catalog (load_products latin1_lower (Some [demo_raw_nameless])) = Some [demo_nameless]
   \<and> as_product (tag_stored latin1_lower (make_product demo_raw_nameless)) = Some demo_nameless"
  by code_simp

lemma demo_nameless_score:
  "score (scored_entry latin1_lower (get_config (sit_type demo_situation)) demo_profile
            demo_nameless) = 5"
  by code_simp

lemma demo_nameless_recommend:
  "map (\<lambda>r. (product r, score r))
     (recommend latin1_lower [demo_nameless] demo_profile demo_situation 3)
     = [(demo_nameless, 5)]"
  by code_simp

lemma demo_null_name_loaded:
  "map st_nombre (load_products latin1_lower (Some [demo_raw_null_name])) = [None]
   \<and> as_catalog (load_products latin1_lower (Some [demo_raw_null_name])) = None"
  by code_simp

section \<open>Loaded catalogs and the types to avoid\<close>

text \<open>
  None of the types the tagger assigns stands in the avoid list of a situation of the
  knowledge base. So no product of a loaded catalog has a type that the situation of a
  request avoids, whatever the file and the situation: on the catalogs the engine holds,
  the penalty of 50 points is never applied.
\<close>

lemma avoid_never_tagged:
  "list_all (\<lambda>(t, config).
      list_all (\<lambda>a. a \<notin> insert (str ''general'') (set (map fst ACTIVITY_KEYWORDS)))
        (avoid config)) SITUATION_CONFIG"
  by code_simp

lemma loaded_never_avoided:
  assumes "sp \<in> set (load_products lower file)"
  shows "\<not> list_ex (\<lambda>atype. atype \<in> set (avoid (get_config t))) (st_activity_types sp)"
proof
  define voc where "voc = insert (str ''general'') (set (map fst ACTIVITY_KEYWORDS))"
  assume "list_ex (\<lambda>atype. atype \<in> set (avoid (get_config t))) (st_activity_types sp)"
  then obtain a where a: "a \<in> set (st_activity_types sp)" and av: "a \<in> set (avoid (get_config t))"
    unfolding list_ex_iff by blast
  have "set (load_products lower file) \<subseteq> range (tag_stored lower)"
    using load_loop_tagged [of lower _ "{}" "[]"]
    by (cases "file") (simp_all add: load_products_def)
  with assms obtain sp0 where "sp = tag_stored lower sp0" by blast
  with a tag_stored_types [of lower sp0] have voc: "a \<in> voc"
    unfolding voc_def by blast
  show False
  proof (cases "map_of SITUATION_CONFIG t")
    case None
    with av show False by (simp add: get_config_def)
  next
    case (Some config)
    then have "(t, config) \<in> set SITUATION_CONFIG" by (rule map_of_SomeD)
    with avoid_never_tagged [folded voc_def]
    have "\<forall>a \<in> set (avoid config). a \<notin> voc"
      unfolding list_all_iff by blast
    moreover from av Some have "a \<in> set (avoid config)" by (simp add: get_config_def)
    ultimately show False using voc by blast
  qed
qed

section \<open>The claims\<close>

text \<open>
  C1. The claim: for every profile, situation and list of ranked matches, the empty list
  included, \<open>generate\<close> returns a string of at most 500 characters. The source truncates
  the message at the end of the path that has a recommendation
  (\<open>generate_nonempty_le_500\<close>), but returns the fallback sentence of the empty list
  before it (\<open>length_generate_empty\<close>): with a name of 500 characters and no
  recommendation the message has 548 characters.
\<close>

theorem generate_empty_exceeds_500:
  "length (generate lower rnd
     \<lparr> user_id = str ''001'', name = replicate 500 97, age = 59, gender = str ''masculino'',
       hobbies = [], goals = [] \<rparr> situation []) = 548"
  by (simp add: length_generate_empty)

text \<open>
  C2. With the keywords of the knowledge base in lower case, the score \<open>recommend\<close>
  computes for an entry is the score of the specification: 30 for each type of the entry in
  the beneficial set, minus a flat 50 if a type is in the avoid set, 15 for each keyword
  found in the lower-cased name, 5 for a promotion, 10 for each hobby found in the
  lower-cased name or subcategory. When a type is beneficial the first reason recorded
  names the first such type. The products \<open>recommend\<close> returns are the entries of the
  catalog whose score of the specification is positive, ranked by that score and
  sliced by \<open>top_n\<close>, and each is returned with that score.
\<close>

theorem recommend_score_rule:
  assumes "keywords_lower_case lower"
  shows "fst (score_product lower (beneficial (get_config (sit_type situation)))
                (avoid (get_config (sit_type situation)))
                (sit_keywords (get_config (sit_type situation))) profile p)
           = spec_score lower (get_config (sit_type situation)) profile p
       \<and> (\<forall>r \<in> set (recommend lower products profile situation top_n).
             score r = spec_score lower (get_config (sit_type situation)) profile (product r))
       \<and> (\<forall>first rest.
             filter (\<lambda>atype. atype \<in> set (beneficial (get_config (sit_type situation))))
               (activity_types p) = first # rest
             \<longrightarrow> (\<exists>more. snd (score_product lower (beneficial (get_config (sit_type situation)))
                              (avoid (get_config (sit_type situation)))
                              (sit_keywords (get_config (sit_type situation))) profile p)
                          = type_reason first # more))
       \<and> map product (recommend lower products profile situation top_n)
           = slice_to
               (sort_key (\<lambda>q. - spec_score lower (get_config (sit_type situation)) profile q)
                  (filter (\<lambda>q. 0 < spec_score lower (get_config (sit_type situation)) profile q)
                     products))
               top_n
       \<and> map score (recommend lower products profile situation top_n)
           = map (spec_score lower (get_config (sit_type situation)) profile)
               (map product (recommend lower products profile situation top_n))"
proof -
  let ?cfg = "get_config (sit_type situation)"
  have fix_kw: "\<And>kw. kw \<in> set (sit_keywords ?cfg) \<Longrightarrow> lower kw = kw"
    using assms by (rule keywords_lower_caseD)
  have spec: "fst (score_product lower (beneficial ?cfg) (avoid ?cfg) (sit_keywords ?cfg) profile q)
                = spec_score lower ?cfg profile q" for q
    using fix_kw by (rule score_product_spec)
  have entry: "score (scored_entry lower ?cfg profile q) = spec_score lower ?cfg profile q" for q
    by (simp only: score_scored_entry spec)
  have each: "score r = spec_score lower ?cfg profile (product r)"
    if "r \<in> set (recommend lower products profile situation top_n)" for r
  proof -
    from that have "r \<in> set (positive_entries lower products profile situation)"
      by (rule in_recommendD)
    then have "r = scored_entry lower ?cfg profile (product r)"
      by (rule in_positive_entriesD(3))
    then have "score r = score (scored_entry lower ?cfg profile (product r))" by simp
    then show ?thesis by (simp only: entry)
  qed
  have reason: "\<exists>more. snd (score_product lower (beneficial ?cfg) (avoid ?cfg)
                              (sit_keywords ?cfg) profile p) = type_reason first # more"
    if "filter (\<lambda>atype. atype \<in> set (beneficial ?cfg)) (activity_types p) = first # rest"
    for first rest
    using that by (rule score_product_first_reason)
  have ranking: "map product (recommend lower products profile situation top_n)
           = slice_to (sort_key (\<lambda>q. - spec_score lower ?cfg profile q)
                  (filter (\<lambda>q. 0 < spec_score lower ?cfg profile q) products)) top_n"
    by (simp only: recommend_products entry)
  have scores: "map score (recommend lower products profile situation top_n)
           = map (spec_score lower ?cfg profile)
               (map product (recommend lower products profile situation top_n))"
    using each by (simp add: each)
  from spec each reason ranking scores show ?thesis by blast
qed

theorem recommend_score_rule_witness:
  "keywords_lower_case latin1_lower
   \<and> spec_score latin1_lower (get_config (sit_type demo_situation)) demo_profile demo_spa = 80
   \<and> fst (score_product latin1_lower (beneficial (get_config (sit_type demo_situation)))
            (avoid (get_config (sit_type demo_situation)))
            (sit_keywords (get_config (sit_type demo_situation))) demo_profile demo_spa) = 80
   \<and> map product (recommend latin1_lower demo_catalog demo_profile demo_situation 3)
       = [demo_spa, demo_yoga, demo_parque]
   \<and> map score (recommend latin1_lower demo_catalog demo_profile demo_situation 3)
       = [80, 30, 30]"
proof -
  note rule = recommend_score_rule [OF latin1_keywords_lower_case,
      of demo_situation demo_profile demo_spa demo_catalog 3]
  from rule have "fst (score_product latin1_lower (beneficial (get_config (sit_type demo_situation)))
            (avoid (get_config (sit_type demo_situation)))
            (sit_keywords (get_config (sit_type demo_situation))) demo_profile demo_spa)
      = spec_score latin1_lower (get_config (sit_type demo_situation)) demo_profile demo_spa"
    by (rule conjunct1)
  moreover from rule
  have "map score (recommend latin1_lower demo_catalog demo_profile demo_situation 3)
      = map (spec_score latin1_lower (get_config (sit_type demo_situation)) demo_profile)
          (map product (recommend latin1_lower demo_catalog demo_profile demo_situation 3))"
    by blast
  ultimately show ?thesis
    using latin1_keywords_lower_case demo_spa_spec_score demo_recommend_products demo_spec_scores
    by simp
qed

text \<open>
  C3. No element of the list \<open>recommend\<close> returns has a score of 0 or less, for every
  catalog, profile, situation and \<open>top_n\<close> (negative ones too).
\<close>

theorem recommend_excludes_nonpositive:
  "\<forall>r \<in> set (recommend lower products profile situation top_n). 0 < score r"
  using in_recommendD in_positive_entriesD(1) by blast

theorem recommend_excludes_nonpositive_witness:
  "map summary (recommend latin1_lower demo_catalog demo_profile demo_situation 3)
     = [(str ''p3'', 80, 3), (str ''p1'', 30, 1), (str ''p4'', 30, 1)]
   \<and> list_all (\<lambda>r. 0 < score r)
       (recommend latin1_lower demo_catalog demo_profile demo_situation 3)"
  using recommend_excludes_nonpositive [of latin1_lower demo_catalog demo_profile demo_situation 3]
  by (simp add: demo_recommend slice_to_def list_all_iff)

text \<open>
  C4. For \<open>top_n\<close> at least 0, the list \<open>recommend\<close> returns is the first \<open>top_n\<close>
  elements of a ranking of the entries with a positive score: the ranking is sorted by
  score in descending order, and the entries of any one score stand in it in the order of
  the catalog. Hence the list has at most \<open>top_n\<close> elements.
\<close>

theorem recommend_ranked_prefix:
  assumes "0 \<le> top_n"
  shows "\<exists>ranked.
           recommend lower products profile situation top_n = take (nat top_n) ranked
         \<and> sorted_wrt (\<lambda>a b. score b \<le> score a) ranked
         \<and> (\<forall>k. filter (\<lambda>r. score r = k) ranked
                  = filter (\<lambda>r. score r = k) (positive_entries lower products profile situation))
         \<and> int (length (recommend lower products profile situation top_n)) \<le> top_n"
proof (intro exI conjI allI)
  let ?ranked = "sort_key (\<lambda>r. - score r) (positive_entries lower products profile situation)"
  show "recommend lower products profile situation top_n = take (nat top_n) ?ranked"
    using assms by (simp add: recommend_eq slice_to_def)
  show "sorted_wrt (\<lambda>a b. score b \<le> score a) ?ranked"
    by (rule sorted_ranked)
  show "filter (\<lambda>r. score r = k) ?ranked
          = filter (\<lambda>r. score r = k) (positive_entries lower products profile situation)" for k
    by (rule stable_ranked)
  show "int (length (recommend lower products profile situation top_n)) \<le> top_n"
    unfolding recommend_eq using assms by (rule length_slice_to_nonneg)
qed

theorem recommend_ranked_prefix_witness:
  "map summary (recommend latin1_lower demo_catalog demo_profile demo_situation 3)
     = [(str ''p3'', 80, 3), (str ''p1'', 30, 1), (str ''p4'', 30, 1)]
   \<and> int (length (recommend latin1_lower demo_catalog demo_profile demo_situation 3)) \<le> 3"
proof -
  have nonneg: "(0::int) \<le> 3" by simp
  have "map summary (recommend latin1_lower demo_catalog demo_profile demo_situation 3)
          = [(str ''p3'', 80, 3), (str ''p1'', 30, 1), (str ''p4'', 30, 1)]"
    by (simp add: demo_recommend slice_to_def)
  moreover have "int (length (recommend latin1_lower demo_catalog demo_profile demo_situation 3)) \<le> 3"
    using recommend_ranked_prefix [OF nonneg, of latin1_lower demo_catalog demo_profile demo_situation]
    by blast
  ultimately show ?thesis by (rule conjI)
qed

text \<open>
  C4 as stated holds for every \<open>top_n\<close>. The source slices with \<open>top_n\<close> as it
  comes, and a negative bound of a slice counts from the end: with \<open>top_n = -1\<close> the
  example returns three recommendations, which is more than \<open>top_n\<close>.
\<close>

theorem recommend_negative_top_n_length_counterexample:
  "map summary (recommend latin1_lower demo_catalog demo_profile demo_situation (- 1))
     = [(str ''p3'', 80, 3), (str ''p1'', 30, 1), (str ''p4'', 30, 1)]
   \<and> \<not> int (length (recommend latin1_lower demo_catalog demo_profile demo_situation (- 1))) \<le> - 1"
  by (simp add: demo_recommend slice_to_def)

text \<open>
  C5. With an empty catalog \<open>recommend\<close> returns the empty list, and on an empty list of
  recommendations \<open>generate\<close> returns the fallback sentence, which begins with the name
  of the profile and so contains it.
\<close>

theorem empty_catalog_fallback:
  "recommend lower [] profile situation top_n = []
   \<and> generate lower rnd profile situation []
       = name profile @ str '', estamos buscando las mejores opciones para ti.''
   \<and> str_in (name profile) (generate lower rnd profile situation [])"
  by (simp add: recommend_def generate_def str_in_append)

theorem empty_catalog_fallback_witness:
  "recommend latin1_lower [] demo_profile demo_situation 3 = []
   \<and> generate latin1_lower 0 demo_profile demo_situation []
       = str ''Ricardo, estamos buscando las mejores opciones para ti.''
   \<and> str_in (str ''Ricardo'') (generate latin1_lower 0 demo_profile demo_situation [])"
  using empty_catalog_fallback [of latin1_lower demo_profile demo_situation 3 0]
  by (simp add: demo_profile_def str_def)

text \<open>
  C6. Tagging is idempotent: tagging a tagged product again gives the same activity
  types and the same situation tags (the same product, in fact), since the tagger reads
  only the name, the categories and the description, which it leaves as they are.
\<close>

theorem tag_product_idempotent:
  "activity_types (tag_product lower (tag_product lower p)) = activity_types (tag_product lower p)
   \<and> situation_tags (tag_product lower (tag_product lower p)) = situation_tags (tag_product lower p)
   \<and> tag_product lower (tag_product lower p) = tag_product lower p"
  by (simp add: tag_product_def Let_def)

theorem tag_product_idempotent_witness:
  "activity_types (tag_product latin1_lower (tag_product latin1_lower demo_spa))
     = [str ''agua'', str ''mindfulness'', str ''baja_estimulacion'']
   \<and> situation_tags (tag_product latin1_lower (tag_product latin1_lower demo_spa))
     = [str ''perdida_familiar'', str ''ruptura_amorosa'', str ''ansiedad'',
        str ''estres_laboral'', str ''duelo'']"
  using tag_product_idempotent [of latin1_lower demo_spa] demo_spa_tagged
  by simp

text \<open>
  C7. \<open>recommend\<close> does not check \<open>top_n\<close>. With a negative \<open>top_n\<close> it scores the
  catalog as with any other and returns the ranking of the entries with a positive score
  (sorted by score, descending and stable) without its last \<open>-top_n\<close> elements; that
  ranking is what it returns for \<open>top_n\<close> the size of the catalog.
\<close>

theorem recommend_negative_top_n:
  assumes "top_n < 0"
  shows "recommend lower products profile situation top_n =
           (let ranked = sort_key (\<lambda>r. - score r)
                           (positive_entries lower products profile situation)
            in take (length ranked - nat (- top_n)) ranked)
       \<and> recommend lower products profile situation top_n =
           (let ranked = recommend lower products profile situation (int (length products))
            in take (length ranked - nat (- top_n)) ranked)"
proof -
  have "nat (int (length xs) + top_n) = length xs - nat (- top_n)" for xs :: "Recommendation list"
    using assms by linarith
  then have "recommend lower products profile situation top_n =
           (let ranked = sort_key (\<lambda>r. - score r)
                           (positive_entries lower products profile situation)
            in take (length ranked - nat (- top_n)) ranked)"
    using assms by (simp add: recommend_eq slice_to_def Let_def)
  then show ?thesis by (simp add: recommend_all Let_def)
qed

theorem recommend_negative_top_n_witness:
  "map summary (recommend latin1_lower demo_catalog demo_profile demo_situation (- 3))
     = [(str ''p3'', 80, 3)]
   \<and> recommend latin1_lower demo_catalog demo_profile demo_situation (- 3)
     = take (length (recommend latin1_lower demo_catalog demo_profile demo_situation 5) - 3)
         (recommend latin1_lower demo_catalog demo_profile demo_situation 5)
   \<and> recommend latin1_lower demo_catalog demo_profile demo_situation (- 3)
     = take (length (positive_entries latin1_lower demo_catalog demo_profile demo_situation) - 3)
         (sort_key (\<lambda>r. - score r)
            (positive_entries latin1_lower demo_catalog demo_profile demo_situation))"
proof -
  have neg: "(- 3 :: int) < 0" by simp
  have size: "int (length demo_catalog) = 5" by (simp add: demo_catalog_def)
  note rule = recommend_negative_top_n [OF neg, of latin1_lower demo_catalog demo_profile
      demo_situation]
  have "map summary (recommend latin1_lower demo_catalog demo_profile demo_situation (- 3))
          = [(str ''p3'', 80, 3)]"
    by (simp add: demo_recommend slice_to_def)
  moreover from rule [THEN conjunct2]
  have "recommend latin1_lower demo_catalog demo_profile demo_situation (- 3)
     = take (length (recommend latin1_lower demo_catalog demo_profile demo_situation 5) - 3)
         (recommend latin1_lower demo_catalog demo_profile demo_situation 5)"
    by (simp add: size Let_def)
  moreover from rule [THEN conjunct1]
  have "recommend latin1_lower demo_catalog demo_profile demo_situation (- 3)
     = take (length (positive_entries latin1_lower demo_catalog demo_profile demo_situation) - 3)
         (sort_key (\<lambda>r. - score r)
            (positive_entries latin1_lower demo_catalog demo_profile demo_situation))"
    by (simp add: Let_def)
  ultimately show ?thesis by blast
qed

text \<open>
  C7 as stated: a negative \<open>top_n\<close> fails before any scoring and returns no
  partial result. On the example, \<open>top_n = -2\<close> returns the two best of the four
  entries with a positive score, each with its score and reasons.
\<close>

theorem recommend_negative_top_n_returns_counterexample:
  "map summary (recommend latin1_lower demo_catalog demo_profile demo_situation (- 2))
     = [(str ''p3'', 80, 3), (str ''p1'', 30, 1)]"
  by (simp add: demo_recommend slice_to_def)

text \<open>
  C8. The loader rejects a raw entry only when what \<^verbatim>\<open>raw.get('id')\<close> returns for it
  was seen before. Every other entry is tagged and loaded, with or without name and
  identifier: for an absent key the field is the empty string, for a key present with
  \<^verbatim>\<open>null\<close> it is \<^verbatim>\<open>None\<close>. When every object of the loaded catalog has its fields of
  their types, such an entry with a positive score is among the recommendations that
  \<open>recommend\<close> returns for \<open>top_n\<close> the size of the catalog.
\<close>

theorem load_products_keeps_malformed:
  assumes "raw_get (raw_id raw) \<notin> (\<lambda>r. raw_get (raw_id r)) ` set pre"
  shows "tag_stored lower (make_product raw)
           \<in> set (load_products lower (Some (pre @ raw # post)))
       \<and> (raw_nombre raw = Absent
            \<longrightarrow> st_nombre (tag_stored lower (make_product raw)) = Some [])
       \<and> (raw_nombre raw = Null
            \<longrightarrow> st_nombre (tag_stored lower (make_product raw)) = None)
       \<and> (raw_id raw = Absent \<longrightarrow> st_id (tag_stored lower (make_product raw)) = Some [])
       \<and> (raw_id raw = Null \<longrightarrow> st_id (tag_stored lower (make_product raw)) = None)
       \<and> (\<forall>ps p. as_catalog (load_products lower (Some (pre @ raw # post))) = Some ps
               \<and> as_product (tag_stored lower (make_product raw)) = Some p
               \<and> 0 < score (scored_entry lower (get_config (sit_type situation)) profile p)
             \<longrightarrow> scored_entry lower (get_config (sit_type situation)) profile p
                   \<in> set (recommend lower ps profile situation (int (length ps))))"
proof -
  have "raw_get (raw_id raw) \<notin> {}" by simp
  then have "tag_stored lower (make_product raw)
               \<in> set (load_loop lower (pre @ raw # post) {} [])"
    using assms by (rule load_loop_keeps)
  then have loaded: "tag_stored lower (make_product raw)
               \<in> set (load_products lower (Some (pre @ raw # post)))"
    by (simp add: load_products_def)
  have fields: "raw_nombre raw = Absent
            \<longrightarrow> st_nombre (tag_stored lower (make_product raw)) = Some []"
      "raw_nombre raw = Null \<longrightarrow> st_nombre (tag_stored lower (make_product raw)) = None"
      "raw_id raw = Absent \<longrightarrow> st_id (tag_stored lower (make_product raw)) = Some []"
      "raw_id raw = Null \<longrightarrow> st_id (tag_stored lower (make_product raw)) = None"
    by (simp_all add: make_product_name get_or_def)
  have rec: "scored_entry lower (get_config (sit_type situation)) profile p
                   \<in> set (recommend lower ps profile situation (int (length ps)))"
    if "as_catalog (load_products lower (Some (pre @ raw # post))) = Some ps"
      and "as_product (tag_stored lower (make_product raw)) = Some p"
      and "0 < score (scored_entry lower (get_config (sit_type situation)) profile p)"
    for ps p
  proof -
    from that(1) loaded that(2) have "p \<in> set ps" by (rule as_catalog_member)
    then show ?thesis using that(3) by (rule in_recommend_all)
  qed
  from loaded fields rec show ?thesis by blast
qed

theorem load_products_keeps_malformed_witness:
  "tag_stored latin1_lower (make_product demo_raw_nameless)
     \<in> set (load_products latin1_lower (Some [demo_raw_nameless]))
   \<and> st_nombre (tag_stored latin1_lower (make_product demo_raw_nameless)) = Some []
   \<and> st_id (tag_stored latin1_lower (make_product demo_raw_nameless)) = Some []
   \<and> st_nombre (tag_stored latin1_lower (make_product demo_raw_null_name)) = None
   \<and> as_catalog (load_products latin1_lower (Some [demo_raw_nameless])) = Some [demo_nameless]
   \<and> scored_entry latin1_lower (get_config (sit_type demo_situation)) demo_profile demo_nameless
       \<in> set (recommend latin1_lower [demo_nameless] demo_profile demo_situation 1)"
proof -
  have fresh: "raw_get (raw_id demo_raw_nameless) \<notin> (\<lambda>r. raw_get (raw_id r)) ` set []"
    by simp
  note rule = load_products_keeps_malformed [OF fresh, of latin1_lower "[]" demo_situation
      demo_profile, simplified append_Nil]
  have null_fresh: "raw_get (raw_id demo_raw_null_name) \<notin> (\<lambda>r. raw_get (raw_id r)) ` set []"
    by simp
  note null_rule = load_products_keeps_malformed [OF null_fresh, of latin1_lower "[]"
      demo_situation demo_profile]
  have absent: "raw_nombre demo_raw_nameless = Absent" "raw_id demo_raw_nameless = Absent"
    by (simp_all add: demo_raw_nameless_def)
  have null: "raw_nombre demo_raw_null_name = Null"
    by (simp add: demo_raw_null_name_def)
  from rule have "tag_stored latin1_lower (make_product demo_raw_nameless)
     \<in> set (load_products latin1_lower (Some [demo_raw_nameless]))"
    by (rule conjunct1)
  moreover from rule absent
  have "st_nombre (tag_stored latin1_lower (make_product demo_raw_nameless)) = Some []"
    and "st_id (tag_stored latin1_lower (make_product demo_raw_nameless)) = Some []"
    by blast+
  moreover from null_rule null
  have "st_nombre (tag_stored latin1_lower (make_product demo_raw_null_name)) = None"
    by blast
  moreover from demo_nameless_loaded
  have cat: "as_catalog (load_products latin1_lower (Some [demo_raw_nameless])) = Some [demo_nameless]"
    and prod: "as_product (tag_stored latin1_lower (make_product demo_raw_nameless))
                 = Some demo_nameless"
    by blast+
  moreover have pos: "0 < score (scored_entry latin1_lower (get_config (sit_type demo_situation))
                              demo_profile demo_nameless)"
    by (simp add: demo_nameless_score)
  from rule cat prod pos
  have "scored_entry latin1_lower (get_config (sit_type demo_situation)) demo_profile demo_nameless
       \<in> set (recommend latin1_lower [demo_nameless] demo_profile demo_situation
                 (int (length [demo_nameless])))"
    by blast
  then have "scored_entry latin1_lower (get_config (sit_type demo_situation)) demo_profile
               demo_nameless
       \<in> set (recommend latin1_lower [demo_nameless] demo_profile demo_situation 1)"
    by simp
  ultimately show ?thesis by blast
qed

text \<open>
  C8 as stated: an entry without name or identifier is rejected and never appears as a
  recommendation. A file with one entry that has neither key, and is on promotion, loads
  as a catalog whose one product has the empty name and is recommended with score 5.
\<close>

theorem nameless_entry_recommended_counterexample:
  "raw_id demo_raw_nameless = Absent \<and> raw_nombre demo_raw_nameless = Absent
   \<and> as_catalog (load_products latin1_lower (Some [demo_raw_nameless])) = Some [demo_nameless]
   \<and> nombre demo_nameless = [] \<and> prod_id demo_nameless = []
   \<and> map (\<lambda>r. (product r, score r))
       (recommend latin1_lower [demo_nameless] demo_profile demo_situation 3)
       = [(demo_nameless, 5)]"
  using demo_nameless_loaded demo_nameless_recommend
  by (simp add: demo_raw_nameless_def demo_nameless_def)

text \<open>
  C10. Every recommendation \<open>recommend\<close> returns has at least one reason: its score is
  positive, and each component that adds to the score appends a reason.
\<close>

theorem recommend_reasons_nonempty:
  "\<forall>r \<in> set (recommend lower products profile situation top_n). reasons r \<noteq> []"
proof
  fix r assume "r \<in> set (recommend lower products profile situation top_n)"
  then have pos: "r \<in> set (positive_entries lower products profile situation)"
    by (rule in_recommendD)
  then have "0 < score r"
    and "r = scored_entry lower (get_config (sit_type situation)) profile (product r)"
    by (rule in_positive_entriesD)+
  then show "reasons r \<noteq> []" using scored_entry_reasons by metis
qed

theorem recommend_reasons_nonempty_witness:
  "map summary (recommend latin1_lower demo_catalog demo_profile demo_situation 2)
     = [(str ''p3'', 80, 3), (str ''p1'', 30, 1)]
   \<and> list_all (\<lambda>r. reasons r \<noteq> [])
       (recommend latin1_lower demo_catalog demo_profile demo_situation 2)"
  using recommend_reasons_nonempty [of latin1_lower demo_catalog demo_profile demo_situation 2]
  by (simp add: demo_recommend slice_to_def list_all_iff)

end
